theory Spec2Isabelle
  imports Complex_Main "HOL-Library.Signed_Division"
begin

unbundle bit_operations_syntax

section \<open>The PCA9685 PWM board controller (i2cpwm\_controller.cpp)\<close>

text \<open>
  A shallow embedding of \<^verbatim>\<open>src/src/i2cpwm_controller.cpp\<close>.

  Naming: the source marks its private functions with a leading underscore, which an
  Isabelle name cannot start with; \<^verbatim>\<open>_foo\<close> of the source is \<open>u_foo\<close> here (so the
  private \<^verbatim>\<open>_set_pwm_frequency\<close> and the service \<^verbatim>\<open>set_pwm_frequency\<close> stay apart).
  The field \<^verbatim>\<open>range\<close> is \<open>range_c\<close>, the parameter \<^verbatim>\<open>end\<close> is \<open>en\<close> and
  \<^verbatim>\<open>value\<close> is \<open>val\<close>.

  Numbers: a C \<^verbatim>\<open>int\<close> is modelled as \<open>int\<close>. Signed overflow is undefined in C and
  does not arise on the paths below (message fields are 16 bit, pulse values are at most
  4096). Integer division of the source truncates towards zero: \<open>sdiv\<close>. A \<^verbatim>\<open>double\<close>
  or \<^verbatim>\<open>float\<close> is modelled as \<open>real\<close>, its conversion to \<^verbatim>\<open>int\<close> as truncation.
\<close>

subsection \<open>Integer helpers\<close>

definition u_abs :: "int \<Rightarrow> int" where
  "u_abs v1 = (if v1 < 0 then 0 - v1 else v1)"

definition u_min :: "int \<Rightarrow> int \<Rightarrow> int" where
  "u_min v1 v2 = (if v1 > v2 then v2 else v1)"

definition u_max :: "int \<Rightarrow> int \<Rightarrow> int" where
  "u_max v1 v2 = (if v1 < v2 then v2 else v1)"

definition u_absmax :: "int \<Rightarrow> int \<Rightarrow> int" where
  "u_absmax v1 v2 =
     (let a1 = u_abs v1; a2 = u_abs v2
      in if a1 < a2 then v2 else v1)"

text \<open>The implicit conversion of a floating-point value to \<^verbatim>\<open>int\<close>: towards zero.\<close>

definition c_trunc :: "real \<Rightarrow> int" where
  "c_trunc x = (if 0 \<le> x then \<lfloor>x\<rfloor> else \<lceil>x\<rceil>)"

subsection \<open>Smoothing\<close>

text \<open>
  \<^verbatim>\<open>return ((cos(_PI*((1000 - speed) / 1000)) + 1) / 2) * 1000;\<close>
  Both operands of the inner division are \<^verbatim>\<open>int\<close>, so it is the truncating integer
  division; only its quotient is multiplied by \<^verbatim>\<open>_PI\<close> as a \<^verbatim>\<open>double\<close>.
\<close>

definition u_smoothing :: "int \<Rightarrow> int" where
  "u_smoothing speed =
     c_trunc (((cos (pi * real_of_int ((1000 - speed) sdiv 1000)) + 1) / 2) * 1000)"

subsection \<open>Data\<close>

record servo_config =
  center :: int
  range_c :: int
  direction :: int
  mode_pos :: int

record drive_mode =
  mode :: int
  scale :: real

abbreviation (input) MODE_UNDEFINED :: int where "MODE_UNDEFINED \<equiv> 0"
abbreviation (input) MODE_ACKERMAN :: int where "MODE_ACKERMAN \<equiv> 1"
abbreviation (input) MODE_DIFFERENTIAL :: int where "MODE_DIFFERENTIAL \<equiv> 2"
abbreviation (input) MODE_MECANUM :: int where "MODE_MECANUM \<equiv> 3"
abbreviation (input) MODE_INVALID :: int where "MODE_INVALID \<equiv> 4"

abbreviation (input) POSITION_UNDEFINED :: int where "POSITION_UNDEFINED \<equiv> 0"
abbreviation (input) POSITION_LEFTFRONT :: int where "POSITION_LEFTFRONT \<equiv> 1"
abbreviation (input) POSITION_RIGHTFRONT :: int where "POSITION_RIGHTFRONT \<equiv> 2"
abbreviation (input) POSITION_LEFTREAR :: int where "POSITION_LEFTREAR \<equiv> 3"
abbreviation (input) POSITION_RIGHTREAR :: int where "POSITION_RIGHTREAR \<equiv> 4"
abbreviation (input) POSITION_INVALID :: int where "POSITION_INVALID \<equiv> 5"

abbreviation (input) BASE_ADDR :: int where "BASE_ADDR \<equiv> 0x40"

text \<open>The registers and bits of \<^verbatim>\<open>enum pwm_regs\<close> (the source writes them \<^verbatim>\<open>__MODE1\<close>, ...).\<close>

abbreviation (input) MODE1 :: int where "MODE1 \<equiv> 0x00"
abbreviation (input) MODE2 :: int where "MODE2 \<equiv> 0x01"
abbreviation (input) PRESCALE :: int where "PRESCALE \<equiv> 0xFE"
abbreviation (input) CHANNEL_ON_L :: int where "CHANNEL_ON_L \<equiv> 0x06"
abbreviation (input) CHANNEL_ON_H :: int where "CHANNEL_ON_H \<equiv> 0x07"
abbreviation (input) CHANNEL_OFF_L :: int where "CHANNEL_OFF_L \<equiv> 0x08"
abbreviation (input) CHANNEL_OFF_H :: int where "CHANNEL_OFF_H \<equiv> 0x09"
abbreviation (input) ALL_CHANNELS_ON_L :: int where "ALL_CHANNELS_ON_L \<equiv> 0xFA"
abbreviation (input) ALL_CHANNELS_ON_H :: int where "ALL_CHANNELS_ON_H \<equiv> 0xFB"
abbreviation (input) ALL_CHANNELS_OFF_L :: int where "ALL_CHANNELS_OFF_L \<equiv> 0xFC"
abbreviation (input) ALL_CHANNELS_OFF_H :: int where "ALL_CHANNELS_OFF_H \<equiv> 0xFD"
abbreviation (input) SLEEP :: int where "SLEEP \<equiv> 0x10"
abbreviation (input) ALLCALL :: int where "ALLCALL \<equiv> 0x01"
abbreviation (input) OUTDRV :: int where "OUTDRV \<equiv> 0x04"

text \<open>
  What the program does to the I2C bus is kept as a trace: the slave selected by
  \<^verbatim>\<open>ioctl (I2C_SLAVE)\<close>, each register written (with the byte, the low 8 bits of the
  argument) and each register read.
\<close>

datatype bus_op = Select int | Write int int | Read int

text \<open>The messages of \<^verbatim>\<open>ROS_ERROR\<close> and \<^verbatim>\<open>ROS_FATAL\<close>, with their arguments.\<close>

datatype log_msg =
    Invalid_active_board int
  | Invalid_board int
  | Invalid_servo int
  | Invalid_proportion int
  | Missing_config int
  | Invalid_computed_position int int
  | Invalid_pwm_value int
  | Invalid_frequency int
  | Invalid_center int
  | Invalid_range int
  | Invalid_range_center int int
  | Invalid_drive_mode string
  | Invalid_scale real
  | Invalid_position int
  | Drive_mode_not_set
  | Unrecognized_drive_mode int
  | Write_failed int
  | Slave_failed int

text \<open>
  The globals of the program. \<open>servo_configs\<close> is \<^verbatim>\<open>_servo_configs[62][16]\<close> and
  \<open>pwm_boards\<close> is \<^verbatim>\<open>_pwm_boards[62]\<close>, both indexed from 0; the bounds are checked where
  the source indexes them (\<open>config_at\<close> below). \<open>ticks\<close> counts the bus transactions made
  so far.
\<close>

record controller =
  servo_configs :: "int \<Rightarrow> int \<Rightarrow> servo_config"
  pwm_boards :: "int \<Rightarrow> int"
  active_board :: int
  pwm_frequency :: int
  active_drive :: drive_mode
  bus :: "bus_op list"
  errors :: "log_msg list"
  ticks :: nat

text \<open>
  The bus is the environment: whether the n-th transaction fails, and the value the n-th
  transaction returns when it is a read.
\<close>

record env =
  io_fail :: "nat \<Rightarrow> bool"
  io_read :: "nat \<Rightarrow> int"

text \<open>
  An access the C standard leaves undefined ends the model's run with a fault: an index
  outside an array, or a read of an element of \<^verbatim>\<open>speed[4]\<close> that was never assigned.
\<close>

datatype fault = Out_of_bounds int int | Uninitialised nat

definition config_at :: "controller \<Rightarrow> int \<Rightarrow> int \<Rightarrow> fault + servo_config" where
  "config_at st b c =
     (if 0 \<le> b \<and> b < 62 \<and> 0 \<le> c \<and> c < 16 then Inr (servo_configs st b c)
      else Inl (Out_of_bounds b c))"

definition log_error :: "log_msg \<Rightarrow> controller \<Rightarrow> controller" where
  "log_error m st = st\<lparr>errors := errors st @ [m]\<rparr>"

subsection \<open>Bus transactions\<close>

text \<open>
  Every \<^verbatim>\<open>i2c_smbus_write_byte_data\<close> of the source stands in
  \<^verbatim>\<open>if (0 > i2c_smbus_write_byte_data (...)) ROS_ERROR (...)\<close>: a failure is logged and the
  run goes on.
\<close>

definition i2c_smbus_write_byte_data :: "env \<Rightarrow> int \<Rightarrow> int \<Rightarrow> controller \<Rightarrow> controller" where
  "i2c_smbus_write_byte_data e reg v st =
     (let st' = st\<lparr>bus := bus st @ [Write reg (v AND 0xFF)], ticks := ticks st + 1\<rparr>
      in if io_fail e (ticks st) then log_error (Write_failed reg) st' else st')"

definition i2c_smbus_read_byte_data :: "env \<Rightarrow> int \<Rightarrow> controller \<Rightarrow> int \<times> controller" where
  "i2c_smbus_read_byte_data e reg st =
     (io_read e (ticks st), st\<lparr>bus := bus st @ [Read reg], ticks := ticks st + 1\<rparr>)"

text \<open>\<^verbatim>\<open>ioctl (_controller_io_handle, I2C_SLAVE, addr)\<close>; the first component says it failed.\<close>

definition ioctl_I2C_SLAVE :: "env \<Rightarrow> int \<Rightarrow> controller \<Rightarrow> bool \<times> controller" where
  "ioctl_I2C_SLAVE e addr st =
     (io_fail e (ticks st), st\<lparr>bus := bus st @ [Select addr], ticks := ticks st + 1\<rparr>)"

subsection \<open>Private methods\<close>

definition u_set_pwm_interval_all :: "env \<Rightarrow> int \<Rightarrow> int \<Rightarrow> controller \<Rightarrow> controller" where
  "u_set_pwm_interval_all e start en st =
     (if active_board st < 1 \<or> active_board st > 62
      then log_error (Invalid_active_board (active_board st)) st
      else
        (let st1 = i2c_smbus_write_byte_data e ALL_CHANNELS_ON_L (start AND 0xFF) st;
             st2 = i2c_smbus_write_byte_data e ALL_CHANNELS_ON_H (drop_bit 8 start) st1;
             st3 = i2c_smbus_write_byte_data e ALL_CHANNELS_OFF_L (en AND 0xFF) st2;
             st4 = i2c_smbus_write_byte_data e ALL_CHANNELS_OFF_H (drop_bit 8 en) st3
         in st4))"

definition u_set_pwm_interval :: "env \<Rightarrow> int \<Rightarrow> int \<Rightarrow> int \<Rightarrow> controller \<Rightarrow> controller" where
  "u_set_pwm_interval e servo start en st =
     (if active_board st < 1 \<or> active_board st > 62
      then log_error (Invalid_active_board (active_board st)) st
      else if servo < 1 \<or> servo > 16
      then log_error (Invalid_servo servo) st
      else
        (let channel = servo - 1;
             st1 = i2c_smbus_write_byte_data e (CHANNEL_ON_L + 4 * channel) (start AND 0xFF) st;
             st2 = i2c_smbus_write_byte_data e (CHANNEL_ON_H + 4 * channel) (drop_bit 8 start) st1;
             st3 = i2c_smbus_write_byte_data e (CHANNEL_OFF_L + 4 * channel) (en AND 0xFF) st2;
             st4 = i2c_smbus_write_byte_data e (CHANNEL_OFF_H + 4 * channel) (drop_bit 8 en) st3
         in st4))"

text \<open>
  The first test is the source's \<^verbatim>\<open>(servo < 1) && (servo > 16)\<close>. The configuration is
  read at \<^verbatim>\<open>_servo_configs[_active_board-1][servo-1]\<close> before any test of its fields.
\<close>

definition u_set_pwm_interval_proportional ::
  "env \<Rightarrow> int \<Rightarrow> int \<Rightarrow> controller \<Rightarrow> fault + controller" where
  "u_set_pwm_interval_proportional e servo val st =
     (if servo < 1 \<and> servo > 16
      then Inr (log_error (Invalid_servo servo) st)
      else if val < -1000 \<or> val > 1000
      then Inr (log_error (Invalid_proportion val) st)
      else
        (case config_at st (active_board st - 1) (servo - 1) of
           Inl f \<Rightarrow> Inl f
         | Inr configp \<Rightarrow>
             if center configp < 0 \<or> range_c configp < 0
             then Inr (log_error (Missing_config servo) st)
             else
               (let pos = (direction configp * (((range_c configp sdiv 2) * val) sdiv 1000))
                          + center configp
                in if pos < 0 \<or> pos > 4096
                   then Inr (log_error (Invalid_computed_position servo pos) st)
                   else Inr (u_set_pwm_interval e servo 0 pos st))))"

text \<open>
  The prescale is computed in \<^verbatim>\<open>float\<close>: \<^verbatim>\<open>floor (25000000.0 / 4096.0 / freq - 1.0 + 0.5)\<close>.
  The waits (\<^verbatim>\<open>nanosleep\<close>) leave no trace in the model.
\<close>

definition u_set_pwm_frequency :: "env \<Rightarrow> int \<Rightarrow> controller \<Rightarrow> controller" where
  "u_set_pwm_frequency e freq st =
     (let st0 = st\<lparr>pwm_frequency := freq\<rparr>;
          prescaleval = 25000000 / 4096 / real_of_int freq - 1;
          prescale = \<lfloor>prescaleval + 0.5\<rfloor>;
          (oldmode, st1) = i2c_smbus_read_byte_data e MODE1 st0;
          newmode = (oldmode AND 0x7F) OR 0x10;
          st2 = i2c_smbus_write_byte_data e MODE1 newmode st1;
          st3 = i2c_smbus_write_byte_data e PRESCALE prescale st2;
          st4 = i2c_smbus_write_byte_data e MODE1 oldmode st3;
          st5 = i2c_smbus_write_byte_data e MODE1 (oldmode OR 0x80) st4
      in st5)"

definition u_set_active_board :: "env \<Rightarrow> int \<Rightarrow> controller \<Rightarrow> controller" where
  "u_set_active_board e board st =
     (if board < 1 \<or> board > 62
      then log_error (Invalid_board board) st
      else if active_board st \<noteq> board
      then
        (let st1 = st\<lparr>active_board := board\<rparr>;
             board0 = board - 1;
             (failed, st2) = ioctl_I2C_SLAVE e (BASE_ADDR + board0) st1
         in if failed
            then log_error (Slave_failed (BASE_ADDR + board0)) st2
            else if pwm_boards st2 board0 < 0
            then
              (let st3 = st2\<lparr>pwm_boards := (pwm_boards st2)(board0 := 1)\<rparr>;
                   st4 = i2c_smbus_write_byte_data e MODE2 OUTDRV st3;
                   st5 = i2c_smbus_write_byte_data e MODE1 ALLCALL st4;
                   (mode1res, st6) = i2c_smbus_read_byte_data e MODE1 st5;
                   mode1res = mode1res AND NOT SLEEP;
                   st7 = i2c_smbus_write_byte_data e MODE1 mode1res st6
               in u_set_pwm_interval_all e 0 0 st7)
            else st2)
      else st)"

text \<open>
  \<^verbatim>\<open>_init\<close> gives every configuration the values below, marks every board as not seen
  and the active board as \<open>-1\<close>; \<^verbatim>\<open>main\<close> has set the frequency to 50 before. (The loops
  of the source run to index 63; the model keeps the assignments inside the arrays.)
\<close>

definition u_init :: controller where
  "u_init =
     \<lparr>servo_configs = (\<lambda>j i. \<lparr>center = -1, range_c = -1, direction = 1, mode_pos = -1\<rparr>),
      pwm_boards = (\<lambda>j. -1),
      active_board = -1,
      pwm_frequency = 50,
      active_drive = \<lparr>mode = MODE_UNDEFINED, scale = 1\<rparr>,
      bus = [],
      errors = [],
      ticks = 0\<rparr>"

subsection \<open>Messages\<close>

text \<open>
  The fields the handlers read of \<^verbatim>\<open>i2cpwm_board::Servo\<close>, \<^verbatim>\<open>i2cpwm_board::ServoConfig\<close>,
  \<^verbatim>\<open>i2cpwm_board::DriveMode::Request\<close> and \<^verbatim>\<open>geometry_msgs::Twist\<close>.
\<close>

record Servo =
  msg_servo :: int
  msg_value :: int

record ServoConfig =
  cfg_servo :: int
  cfg_center :: int
  cfg_range :: int
  cfg_direction :: int

record DriveMode =
  req_mode :: string
  req_scale :: real
  req_servos :: "Servo list"

record Twist =
  linear_x :: real
  linear_y :: real
  linear_z :: real
  angular_x :: real
  angular_y :: real
  angular_z :: real

subsection \<open>Topics\<close>

definition servos_absolute_body :: "env \<Rightarrow> Servo \<Rightarrow> controller \<Rightarrow> controller" where
  "servos_absolute_body e sp st =
     (let servo = msg_servo sp; val = msg_value sp
      in if servo < 1 \<and> servo > 16
         then log_error (Invalid_servo servo) st
         else if val < 0 \<or> val > 4096
         then log_error (Invalid_pwm_value val) st
         else u_set_pwm_interval e servo 0 val st)"

definition servos_absolute :: "env \<Rightarrow> Servo list \<Rightarrow> controller \<Rightarrow> controller" where
  "servos_absolute e msg st = fold (servos_absolute_body e) msg st"

fun servos_proportional :: "env \<Rightarrow> Servo list \<Rightarrow> controller \<Rightarrow> fault + controller" where
  "servos_proportional e [] st = Inr st"
| "servos_proportional e (sp # msg) st =
     (case u_set_pwm_interval_proportional e (msg_servo sp) (msg_value sp) st of
        Inl f \<Rightarrow> Inl f
      | Inr st' \<Rightarrow> servos_proportional e msg st')"

text \<open>
  The array \<^verbatim>\<open>speed[4]\<close> after the \<^verbatim>\<open>switch\<close> of \<^verbatim>\<open>servos_drive\<close>, for the drive mode \<open>m\<close>;
  \<open>None\<close> is an element no statement has assigned. \<^verbatim>\<open>_abs\<close> takes an \<^verbatim>\<open>int\<close>, so the
  \<^verbatim>\<open>double\<close> of the message is truncated on the call. \<open>temp_y\<close> is computed from
  \<^verbatim>\<open>linear.x\<close>, as in the source. In the differential case the three statements are
  \<^verbatim>\<open>swap = speed[0]; speed[0] = speed[1]; speed[1] - swap;\<close> and the last is an expression
  without effect, so only \<open>speed[0]\<close> changes.
\<close>

definition drive_speeds :: "int \<Rightarrow> Twist \<Rightarrow> int option list" where
  "drive_speeds m msg =
     (let dir_x = (if linear_x msg > 0 then 1 else -1);
          dir_y = (if linear_y msg > 0 then 1 else -1);
          dir_r = (if angular_z msg > 0 then 1 else -1);
          temp_x = u_abs (c_trunc (linear_x msg));
          temp_y = u_abs (c_trunc (linear_x msg));
          temp_r = u_abs (c_trunc (angular_z msg));
          temp_x = u_smoothing temp_x;
          temp_y = u_smoothing temp_y;
          temp_r = u_smoothing temp_r sdiv 2
      in if m = MODE_ACKERMAN then
           [Some (temp_x * dir_x), None, None, None]
         else if m = MODE_DIFFERENTIAL then
           (let speed0 = temp_x * dir_x;
                speed1 = (temp_x - temp_r) * dir_x;
                speed0 = (if dir_r < (0::int) then speed1 else speed0)
            in [Some speed0, Some speed1, None, None])
         else if m = MODE_MECANUM then
           (let speed2 = temp_x * dir_x;
                speed0 = speed2;
                speed3 = (temp_x - temp_r) * dir_x;
                speed1 = speed3;
                speed0 = speed0 - temp_y * dir_y;
                speed3 = speed3 - temp_y * dir_y;
                speed1 = speed1 + temp_y * dir_y;
                speed2 = speed2 + temp_y * dir_y;
                speed0 = u_absmax speed0 1000;
                speed1 = u_absmax speed1 1000;
                speed2 = u_absmax speed2 1000;
                speed3 = u_absmax speed3 1000
            in [Some speed0, Some speed1, Some speed2, Some speed3])
         else [None, None, None, None])"

text \<open>
  One \<^verbatim>\<open>if\<close> of the final loop: channel \<open>i\<close> gets \<open>speed[k]\<close> when its position is \<open>p\<close>.
\<close>

definition drive_servo :: "env \<Rightarrow> int option list \<Rightarrow> int \<Rightarrow> int \<Rightarrow> nat \<Rightarrow> controller \<Rightarrow> fault + controller" where
  "drive_servo e speed i p k st =
     (case config_at st (active_board st - 1) i of
        Inl f \<Rightarrow> Inl f
      | Inr c \<Rightarrow>
          if mode_pos c = p then
            (case speed ! k of
               None \<Rightarrow> Inl (Uninitialised k)
             | Some v \<Rightarrow> u_set_pwm_interval_proportional e (i + 1) v st)
          else Inr st)"

definition then_do :: "fault + 'a \<Rightarrow> ('a \<Rightarrow> fault + 'b) \<Rightarrow> fault + 'b" where
  "then_do r f = (case r of Inl x \<Rightarrow> Inl x | Inr a \<Rightarrow> f a)"

fun drive_loop :: "env \<Rightarrow> int option list \<Rightarrow> int list \<Rightarrow> controller \<Rightarrow> fault + controller" where
  "drive_loop e speed [] st = Inr st"
| "drive_loop e speed (i # is) st =
     then_do (drive_servo e speed i POSITION_LEFTFRONT 0 st) (\<lambda>st.
     then_do (drive_servo e speed i POSITION_RIGHTFRONT 1 st) (\<lambda>st.
     then_do (drive_servo e speed i POSITION_LEFTREAR 3 st) (\<lambda>st.
     then_do (drive_servo e speed i POSITION_RIGHTREAR 2 st) (\<lambda>st.
     drive_loop e speed is st))))"

definition servos_drive :: "env \<Rightarrow> Twist \<Rightarrow> controller \<Rightarrow> fault + controller" where
  "servos_drive e msg st =
     (if mode (active_drive st) = MODE_UNDEFINED
      then Inr (log_error Drive_mode_not_set st)
      else if mode (active_drive st) < MODE_UNDEFINED \<or> mode (active_drive st) \<ge> MODE_INVALID
      then Inr (log_error (Unrecognized_drive_mode (mode (active_drive st))) st)
      else drive_loop e (drive_speeds (mode (active_drive st)) msg) [0..15] st)"

subsection \<open>Services\<close>

text \<open>Each service returns the new state and \<^verbatim>\<open>res.error\<close>.\<close>

definition set_pwm_frequency :: "env \<Rightarrow> int \<Rightarrow> controller \<Rightarrow> controller \<times> int" where
  "set_pwm_frequency e req st =
     (let (freq, st1) =
            (if req < 12 \<or> req > 1024
             then (50, log_error (Invalid_frequency req) st)
             else (req, st))
      in (u_set_pwm_frequency e freq st1, freq))"

definition set_pwm_active_board :: "env \<Rightarrow> int \<Rightarrow> controller \<Rightarrow> controller \<times> int" where
  "set_pwm_active_board e req st =
     (let (board, st1) =
            (if req < 1 \<or> req > 62
             then (1, log_error (Invalid_board req) st)
             else (req, st));
          st2 = u_set_active_board e board st1;
          st3 = u_set_pwm_frequency e (pwm_frequency st2) st2
      in (st3, board))"

text \<open>
  The body of the loop of \<^verbatim>\<open>config_servos\<close>, on the state and \<^verbatim>\<open>res.error\<close>. The third
  test repeats the test of \<open>center\<close> under the message about \<open>range\<close>, as the source does.
\<close>

definition config_servos_body :: "ServoConfig \<Rightarrow> controller \<times> int \<Rightarrow> controller \<times> int" where
  "config_servos_body r = (\<lambda>(st, err).
     if cfg_servo r < 1 \<or> cfg_servo r > 16
     then (log_error (Invalid_servo (cfg_servo r)) st, cfg_servo r)
     else if cfg_center r < 0 \<or> cfg_center r > 4096
     then (log_error (Invalid_center (cfg_center r)) st, err)
     else if cfg_center r < 0 \<or> cfg_center r > 4096
     then (log_error (Invalid_range (cfg_range r)) st, err)
     else if (cfg_center r - (cfg_range r sdiv 2)) < 0 \<or> ((cfg_range r sdiv 2) + cfg_center r) > 4096
     then (log_error (Invalid_range_center (cfg_center r) (cfg_range r sdiv 2)) st, err)
     else
       (st\<lparr>servo_configs := (servo_configs st)
            (active_board st - 1 := (servo_configs st (active_board st - 1))
               (cfg_servo r - 1 :=
                  \<lparr>center = cfg_center r, range_c = cfg_range r,
                   direction = cfg_direction r, mode_pos = POSITION_UNDEFINED\<rparr>))\<rparr>,
        err))"

definition config_servos :: "ServoConfig list \<Rightarrow> controller \<Rightarrow> controller \<times> int" where
  "config_servos req st =
     (if active_board st < 1 \<or> active_board st > 62
      then (log_error (Invalid_board (active_board st)) st, -1)
      else fold config_servos_body req (st, 0))"

definition config_drive_mode_body :: "Servo \<Rightarrow> controller \<times> int \<Rightarrow> controller \<times> int" where
  "config_drive_mode_body r = (\<lambda>(st, err).
     let servo = msg_servo r; position = msg_value r
     in if active_board st < 1 \<or> active_board st > 62
        then (log_error (Invalid_board (active_board st)) st, servo)
        else if servo < 1 \<or> servo > 16
        then (log_error (Invalid_servo servo) st, servo)
        else if position < POSITION_UNDEFINED \<or> position > POSITION_LEFTREAR
        then (log_error (Invalid_position position) st, err)
        else
          (st\<lparr>servo_configs := (servo_configs st)
               (active_board st - 1 := (servo_configs st (active_board st - 1))
                  (servo - 1 :=
                     (servo_configs st (active_board st - 1) (servo - 1))\<lparr>mode_pos := position\<rparr>))\<rparr>,
           err))"

definition config_drive_mode :: "DriveMode \<Rightarrow> controller \<Rightarrow> controller \<times> int" where
  "config_drive_mode req st =
     (let m = (if req_mode req = ''ackerman'' then MODE_ACKERMAN
               else if req_mode req = ''differential'' then MODE_DIFFERENTIAL
               else if req_mode req = ''mecanum'' then MODE_MECANUM
               else MODE_INVALID)
      in if m = MODE_INVALID
         then (log_error (Invalid_drive_mode (req_mode req)) st, -1)
         else
           (let st1 = st\<lparr>active_drive := (active_drive st)\<lparr>mode := m\<rparr>\<rparr>
            in if req_scale req \<le> 0
               then (log_error (Invalid_scale (req_scale req)) st1, -1)
               else
                 (let st2 = st1\<lparr>active_drive := \<lparr>mode = m, scale = req_scale req\<rparr>\<rparr>
                  in fold config_drive_mode_body (req_servos req) (st2, 0))))"

definition stop_servos_body :: "env \<Rightarrow> int \<Rightarrow> controller \<Rightarrow> controller" where
  "stop_servos_body e i st =
     (if pwm_boards st i > 0
      then u_set_pwm_interval_all e 0 0 (u_set_active_board e (i + 1) st)
      else st)"

definition stop_servos :: "env \<Rightarrow> controller \<Rightarrow> controller" where
  "stop_servos e st =
     (let save_active = active_board st;
          st1 = fold (stop_servos_body e) [0..61] st
      in st1\<lparr>active_board := save_active\<rparr>)"

subsection \<open>Example states\<close>

text \<open>
  A bus on which every transaction succeeds and every read returns 0, and the state
  after \<^verbatim>\<open>main\<close> has run \<^verbatim>\<open>_init\<close>, \<^verbatim>\<open>_set_active_board (1)\<close> and \<^verbatim>\<open>_set_pwm_frequency (50)\<close> on it.
\<close>

definition quiet :: env where
  "quiet = \<lparr>io_fail = (\<lambda>n. False), io_read = (\<lambda>n. 0)\<rparr>"

definition started :: controller where
  "started = u_set_pwm_frequency quiet 50 (u_set_active_board quiet 1 u_init)"

text \<open>The same state after the documented example of \<^verbatim>\<open>config_servos\<close>: servo 1 with
  center 336, range 96 and direction 1.\<close>

definition calibrated :: controller where
  "calibrated =
     fst (config_servos
            [\<lparr>cfg_servo = 1, cfg_center = 336, cfg_range = 96, cfg_direction = 1\<rparr>] started)"

text \<open>The start-up state after the service \<^verbatim>\<open>set_pwm_active_board\<close> was called for board 2
  and then for board 1: two boards are marked as seen, board 1 is active.\<close>

definition two_boards :: controller where
  "two_boards =
     fst (set_pwm_active_board quiet 1 (fst (set_pwm_active_board quiet 2 started)))"

section \<open>Properties\<close>

subsection \<open>Evaluation\<close>

lemmas bus_defs =
  i2c_smbus_write_byte_data_def i2c_smbus_read_byte_data_def ioctl_I2C_SLAVE_def log_error_def

lemma c_trunc_of_int: "c_trunc (real_of_int k) = k"
  by (simp add: c_trunc_def)

lemma c_trunc_consts:
  "c_trunc 0 = 0" "c_trunc 1 = 1" "c_trunc (- 1) = - 1"
  "c_trunc (numeral n) = numeral n" "c_trunc (- numeral n) = - numeral n"
  using c_trunc_of_int [of 0] c_trunc_of_int [of 1] c_trunc_of_int [of "- 1"]
    c_trunc_of_int [of "numeral n"] c_trunc_of_int [of "- numeral n"]
  by simp_all

lemma c_sdiv_nonneg: "0 \<le> a \<Longrightarrow> 0 \<le> b \<Longrightarrow> (a::int) sdiv b = a div b"
  by (simp add: signed_divide_int_def sgn_if)

text \<open>The start-up run, evaluated: board 1 is selected and woken, all channels are zeroed,
  and the prescale for 50 Hz is 121.\<close>

lemma started_eq:
  "started =
     \<lparr>servo_configs = (\<lambda>j i. \<lparr>center = - 1, range_c = - 1, direction = 1, mode_pos = - 1\<rparr>),
      pwm_boards = (\<lambda>j. - 1)(0 := 1),
      active_board = 1,
      pwm_frequency = 50,
      active_drive = \<lparr>mode = MODE_UNDEFINED, scale = 1\<rparr>,
      bus = [Select 0x40, Write MODE2 OUTDRV, Write MODE1 ALLCALL, Read MODE1, Write MODE1 0,
             Write ALL_CHANNELS_ON_L 0, Write ALL_CHANNELS_ON_H 0,
             Write ALL_CHANNELS_OFF_L 0, Write ALL_CHANNELS_OFF_H 0,
             Read MODE1, Write MODE1 0x10, Write PRESCALE 121, Write MODE1 0, Write MODE1 0x80],
      errors = [],
      ticks = 14\<rparr>"
  by (simp add: started_def u_init_def quiet_def u_set_active_board_def u_set_pwm_frequency_def
      bus_defs u_set_pwm_interval_all_def Let_def)

lemma calibrated_fields:
  "active_board calibrated = 1"
  "servo_configs calibrated 0 0 = \<lparr>center = 336, range_c = 96, direction = 1, mode_pos = 0\<rparr>"
  "errors calibrated = []"
  by (simp_all add: calibrated_def config_servos_def config_servos_body_def started_eq
      signed_divide_int_def)

subsection \<open>Smoothing\<close>

lemma sdiv_small_nonneg: "0 \<le> a \<Longrightarrow> a < b \<Longrightarrow> (a::int) sdiv b = 0"
  by (simp add: signed_divide_int_def)

lemma u_smoothing_upper: "1 \<le> v \<Longrightarrow> v \<le> 1000 \<Longrightarrow> u_smoothing v = 1000"
  by (simp add: u_smoothing_def sdiv_small_nonneg c_trunc_def)

lemma u_smoothing_zero: "u_smoothing 0 = 0"
  by (simp add: u_smoothing_def signed_divide_int_def c_trunc_def)

lemma u_smoothing_mono:
  "0 \<le> v \<Longrightarrow> v \<le> w \<Longrightarrow> w \<le> 1000 \<Longrightarrow> u_smoothing v \<le> u_smoothing w"
proof (cases "v = 0")
  case True
  assume "v \<le> w" "w \<le> 1000"
  show ?thesis
  proof (cases "w = 0")
    case True
    with \<open>v = 0\<close> show ?thesis by simp
  next
    case False
    with \<open>v = 0\<close> \<open>v \<le> w\<close> \<open>w \<le> 1000\<close> show ?thesis
      by (simp add: u_smoothing_zero u_smoothing_upper)
  qed
next
  case False
  assume "0 \<le> v" "v \<le> w" "w \<le> 1000"
  with False show ?thesis by (simp add: u_smoothing_upper)
qed

text \<open>
  C1. The claim asks for \<open>ease 0 = 0\<close>, \<open>ease 1000 = 1000\<close>, \<open>ease 500 = 500\<close> and
  monotonicity on 0..1000. The end points and monotonicity hold (\<open>u_smoothing_zero\<close>,
  \<open>u_smoothing_upper\<close>, \<open>u_smoothing_mono\<close>), but the integer division makes the function
  a step: at 500 the quotient \<open>(1000 - 500) / 1000\<close> is 0, the cosine is 1 and the result
  is 1000, not 500.
\<close>

theorem u_smoothing_500_is_1000:
  "u_smoothing 500 = 1000 \<and> u_smoothing 500 \<noteq> 500"
  by (simp add: u_smoothing_def signed_divide_int_def c_trunc_def)

subsection \<open>Drive speeds\<close>

text \<open>With 1000 as its second argument \<^verbatim>\<open>_absmax\<close> is no clamp: it returns 1000 for every
  speed of smaller magnitude and the speed itself otherwise.\<close>

lemma u_absmax_1000: "u_absmax v 1000 = (if \<bar>v\<bar> < 1000 then 1000 else v)"
  by (simp add: u_absmax_def u_abs_def Let_def)

lemma u_absmax_1000_magnitude: "1000 \<le> \<bar>u_absmax v 1000\<bar>"
  by (simp add: u_absmax_1000)

text \<open>So every mecanum wheel speed has magnitude 1000 or more, whatever the message.\<close>

lemma mecanum_speeds_at_least_1000:
  "\<exists>a b c d. drive_speeds MODE_MECANUM msg = [Some a, Some b, Some c, Some d]
     \<and> 1000 \<le> \<bar>a\<bar> \<and> 1000 \<le> \<bar>b\<bar> \<and> 1000 \<le> \<bar>c\<bar> \<and> 1000 \<le> \<bar>d\<bar>"
  by (simp add: drive_speeds_def Let_def u_absmax_1000_magnitude)

text \<open>In differential mode a rotation that is not positive gives both sides the same
  speed.\<close>

lemma differential_reverse_equal_speeds:
  "angular_z msg \<le> 0 \<Longrightarrow>
   \<exists>r. drive_speeds MODE_DIFFERENTIAL msg = [Some r, Some r, None, None]"
  by (simp add: drive_speeds_def Let_def)

text \<open>
  C2. The claim asks that a mecanum wheel speed beyond magnitude 1000 becomes +1000 or
  -1000 with its sign, and that a speed within 1000 stays. For the message with
  \<open>linear.x = 1\<close>, \<open>linear.y = 1\<close>, \<open>angular.z = 1\<close> the four speeds before the calls of
  \<^verbatim>\<open>_absmax\<close> are 0, 1500, 2000 and -500; the code leaves 1500 and 2000 as they are and
  turns 0 and -500 into 1000.
\<close>

theorem mecanum_speeds_not_clamped:
  "drive_speeds MODE_MECANUM
     \<lparr>linear_x = 1, linear_y = 1, linear_z = 0, angular_x = 0, angular_y = 0, angular_z = 1\<rparr>
   = [Some 1000, Some 1500, Some 2000, Some 1000]"
  by (simp add: drive_speeds_def u_abs_def c_trunc_consts u_smoothing_upper u_absmax_def Let_def
      signed_divide_int_def)

text \<open>
  C3. The claim asks that negating \<open>angular.z\<close> reverses the pair (left, right). With
  \<open>linear.x = 1\<close> the pair is (1000, 500) for \<open>angular.z = 1\<close>, and for \<open>angular.z = -1\<close> it
  is (500, 500), not (500, 1000): the right speed is copied to the left and the left
  speed is never stored to the right.
\<close>

theorem differential_reverse_not_swapped:
  "drive_speeds MODE_DIFFERENTIAL
     \<lparr>linear_x = 1, linear_y = 0, linear_z = 0, angular_x = 0, angular_y = 0, angular_z = 1\<rparr>
   = [Some 1000, Some 500, None, None]
   \<and> drive_speeds MODE_DIFFERENTIAL
     \<lparr>linear_x = 1, linear_y = 0, linear_z = 0, angular_x = 0, angular_y = 0, angular_z = - 1\<rparr>
   = [Some 500, Some 500, None, None]"
  by (simp add: drive_speeds_def u_abs_def c_trunc_consts u_smoothing_upper Let_def
      signed_divide_int_def)

subsection \<open>Proportional pulses\<close>

lemma u_set_pwm_interval_bus:
  "1 \<le> active_board st \<Longrightarrow> active_board st \<le> 62 \<Longrightarrow> 1 \<le> servo \<Longrightarrow> servo \<le> 16 \<Longrightarrow>
   bus (u_set_pwm_interval e servo start en st) =
     bus st @ [Write (CHANNEL_ON_L + 4 * (servo - 1)) (start AND 0xFF),
               Write (CHANNEL_ON_H + 4 * (servo - 1)) (drop_bit 8 start AND 0xFF),
               Write (CHANNEL_OFF_L + 4 * (servo - 1)) (en AND 0xFF),
               Write (CHANNEL_OFF_H + 4 * (servo - 1)) (drop_bit 8 en AND 0xFF)]"
  by (simp add: u_set_pwm_interval_def bus_defs Let_def)

text \<open>
  C4. On a valid active board, for a servo 1..16 whose configuration has \<open>center \<ge> 0\<close> and
  \<open>range \<ge> 0\<close>, and a value in -1000..1000: with
  \<open>pos = direction * ((range / 2) * value / 1000) + center\<close>, both divisions truncating
  (written out below with \<open>sgn\<close> and \<open>div\<close> on absolute values; \<open>range\<close> is not negative,
  so its halving is \<open>div\<close>), the command is rejected with the computed-position error,
  and nothing is written, exactly when \<open>pos < 0\<close> or \<open>pos > 4096\<close>; otherwise the pulse
  \<open>(0, pos)\<close> is written to the four registers of the channel.
\<close>

theorem proportional_conversion:
  fixes st :: controller and servo val :: int and e :: env
  defines "cfg \<equiv> servo_configs st (active_board st - 1) (servo - 1)"
  defines "half \<equiv> range_c cfg div 2"
  defines "pos \<equiv> direction cfg * (sgn (half * val) * (\<bar>half * val\<bar> div 1000)) + center cfg"
  assumes board: "1 \<le> active_board st" "active_board st \<le> 62"
    and servo: "1 \<le> servo" "servo \<le> 16"
    and configured: "0 \<le> center cfg" "0 \<le> range_c cfg"
    and val: "- 1000 \<le> val" "val \<le> 1000"
  shows "u_set_pwm_interval_proportional e servo val st =
           (if pos < 0 \<or> 4096 < pos
            then Inr (log_error (Invalid_computed_position servo pos) st)
            else Inr (u_set_pwm_interval e servo 0 pos st))
         \<and> bus (u_set_pwm_interval e servo 0 pos st) =
             bus st @ [Write (CHANNEL_ON_L + 4 * (servo - 1)) 0,
                       Write (CHANNEL_ON_H + 4 * (servo - 1)) 0,
                       Write (CHANNEL_OFF_L + 4 * (servo - 1)) (pos AND 0xFF),
                       Write (CHANNEL_OFF_H + 4 * (servo - 1)) (drop_bit 8 pos AND 0xFF)]"
proof -
  have lookup: "config_at st (active_board st - 1) (servo - 1) = Inr cfg"
    using board servo by (simp add: config_at_def cfg_def)
  have "range_c cfg sdiv 2 = half"
    using configured by (simp add: c_sdiv_nonneg half_def)
  then have "direction cfg * (((range_c cfg sdiv 2) * val) sdiv 1000) + center cfg = pos"
    by (simp add: signed_divide_int_def pos_def)
  then have first: "u_set_pwm_interval_proportional e servo val st =
           (if pos < 0 \<or> 4096 < pos
            then Inr (log_error (Invalid_computed_position servo pos) st)
            else Inr (u_set_pwm_interval e servo 0 pos st))"
    using val configured lookup servo
    by (simp add: u_set_pwm_interval_proportional_def Let_def)
  show ?thesis
    using first u_set_pwm_interval_bus [OF board servo, of e 0 pos] by simp
qed

text \<open>With center 336, range 96 and direction 1: 0 gives 336, 1000 gives 384 and -1000
  gives 288; the pulse 384 is the bytes 128 and 1.\<close>

theorem proportional_conversion_witness:
  "u_set_pwm_interval_proportional quiet 1 0 calibrated =
     Inr (u_set_pwm_interval quiet 1 0 336 calibrated)
   \<and> u_set_pwm_interval_proportional quiet 1 1000 calibrated =
     Inr (u_set_pwm_interval quiet 1 0 384 calibrated)
   \<and> u_set_pwm_interval_proportional quiet 1 (- 1000) calibrated =
     Inr (u_set_pwm_interval quiet 1 0 288 calibrated)
   \<and> bus (u_set_pwm_interval quiet 1 0 384 calibrated) =
     bus calibrated @ [Write 6 0, Write 7 0, Write 8 128, Write 9 1]"
  using proportional_conversion [of calibrated 1 0 quiet]
    proportional_conversion [of calibrated 1 1000 quiet]
    proportional_conversion [of calibrated 1 "- 1000" quiet]
  by (simp add: calibrated_fields)

subsection \<open>The test of the servo number\<close>

lemma log_error_neq: "X \<noteq> Y \<Longrightarrow> log_error X st \<noteq> log_error Y st"
  by (auto simp add: log_error_def dest: arg_cong [where f = errors])

lemma u_set_pwm_interval_not_invalid_servo:
  assumes "1 \<le> servo" "servo \<le> 16"
  shows "u_set_pwm_interval e servo start en st \<noteq> log_error (Invalid_servo servo) st"
proof (cases "active_board st < 1 \<or> active_board st > 62")
  case True
  then have "u_set_pwm_interval e servo start en st =
      log_error (Invalid_active_board (active_board st)) st"
    by (simp add: u_set_pwm_interval_def)
  then show ?thesis by (simp add: log_error_neq)
next
  case False
  then have "length (bus (u_set_pwm_interval e servo start en st)) = length (bus st) + 4"
    using assms u_set_pwm_interval_bus [of st servo e start en] by simp
  moreover have "length (bus (log_error (Invalid_servo servo) st)) = length (bus st)"
    by (simp add: log_error_def)
  ultimately show ?thesis by auto
qed

text \<open>
  C9. The test \<^verbatim>\<open>(servo < 1) && (servo > 16)\<close> of the proportional path holds for no
  servo number: the path never answers with the invalid-servo error, and a servo
  number outside 1..16 (with a value in -1000..1000) goes on to index
  \<^verbatim>\<open>_servo_configs[_active_board-1][servo-1]\<close> outside the 16 configurations of the board.
  The handler of the absolute topic has the same test: for every servo number, also
  one outside 1..16, it only tests the value and then calls \<^verbatim>\<open>_set_pwm_interval\<close>.
\<close>

theorem servo_guard_never_rejects:
  fixes e :: env and st :: controller and servo val :: int
  shows "(- 1000 \<le> val \<and> val \<le> 1000 \<and> (servo < 1 \<or> 16 < servo) \<longrightarrow>
            u_set_pwm_interval_proportional e servo val st =
              Inl (Out_of_bounds (active_board st - 1) (servo - 1)))
         \<and> u_set_pwm_interval_proportional e servo val st
             \<noteq> Inr (log_error (Invalid_servo servo) st)
         \<and> servos_absolute e [\<lparr>msg_servo = servo, msg_value = val\<rparr>] st =
             (if val < 0 \<or> 4096 < val then log_error (Invalid_pwm_value val) st
              else u_set_pwm_interval e servo 0 val st)"
proof -
  have a: "- 1000 \<le> val \<and> val \<le> 1000 \<and> (servo < 1 \<or> 16 < servo) \<longrightarrow>
            u_set_pwm_interval_proportional e servo val st =
              Inl (Out_of_bounds (active_board st - 1) (servo - 1))"
    by (auto simp add: u_set_pwm_interval_proportional_def config_at_def)
  have b: "u_set_pwm_interval_proportional e servo val st
             \<noteq> Inr (log_error (Invalid_servo servo) st)"
    using u_set_pwm_interval_not_invalid_servo [of servo e 0 _ st]
    by (auto simp add: u_set_pwm_interval_proportional_def config_at_def Let_def log_error_neq)
  have c: "servos_absolute e [\<lparr>msg_servo = servo, msg_value = val\<rparr>] st =
             (if val < 0 \<or> 4096 < val then log_error (Invalid_pwm_value val) st
              else u_set_pwm_interval e servo 0 val st)"
    by (auto simp add: servos_absolute_def servos_absolute_body_def Let_def)
  from a b c show ?thesis by blast
qed

theorem servo_guard_never_rejects_witness:
  "u_set_pwm_interval_proportional quiet 17 0 started = Inl (Out_of_bounds 0 16)
   \<and> u_set_pwm_interval_proportional quiet 0 0 started = Inl (Out_of_bounds 0 (- 1))
   \<and> servos_absolute quiet [\<lparr>msg_servo = 17, msg_value = 200\<rparr>] started =
       u_set_pwm_interval quiet 17 0 200 started"
  using servo_guard_never_rejects [of 0 17 quiet started]
    servo_guard_never_rejects [of 0 0 quiet started]
    servo_guard_never_rejects [of 200 17 quiet started]
  by (simp add: started_eq)

subsection \<open>Frequency\<close>

lemma set_pwm_frequency_in_range:
  "12 \<le> freq \<Longrightarrow> freq \<le> 1024 \<Longrightarrow>
   set_pwm_frequency e freq st = (u_set_pwm_frequency e freq st, freq)
   \<and> pwm_frequency (fst (set_pwm_frequency e freq st)) = freq"
  by (simp add: set_pwm_frequency_def u_set_pwm_frequency_def bus_defs Let_def)

text \<open>
  C5. A requested frequency outside 12..1024 is refused: the error is logged and the
  requested value is neither stored nor used for the prescale. The service goes on with
  the default of 50 Hz in its place: 50 is stored and returned in \<^verbatim>\<open>res.error\<close>, and the
  prescale written to the device is 121, the one of 50 Hz.
\<close>

theorem set_pwm_frequency_out_of_range:
  fixes e :: env and st :: controller and freq :: int
  defines "st' \<equiv> fst (set_pwm_frequency e freq st)"
  defines "oldmode \<equiv> io_read e (ticks st)"
  assumes "freq < 12 \<or> 1024 < freq"
  shows "snd (set_pwm_frequency e freq st) = 50
         \<and> pwm_frequency st' = 50
         \<and> pwm_frequency st' \<noteq> freq
         \<and> bus st' = bus st @
              [Read MODE1,
               Write MODE1 (((oldmode AND 0x7F) OR 0x10) AND 0xFF),
               Write PRESCALE 121,
               Write MODE1 (oldmode AND 0xFF),
               Write MODE1 ((oldmode OR 0x80) AND 0xFF)]
         \<and> Invalid_frequency freq \<in> set (errors st')"
proof -
  have run: "set_pwm_frequency e freq st =
      (u_set_pwm_frequency e 50 (log_error (Invalid_frequency freq) st), 50)"
    using assms(3) by (auto simp add: set_pwm_frequency_def)
  have freq50: "pwm_frequency (u_set_pwm_frequency e 50 s) = 50" for s
    by (simp add: u_set_pwm_frequency_def bus_defs Let_def)
  have trace: "bus (u_set_pwm_frequency e 50 s) = bus s @
              [Read MODE1,
               Write MODE1 (((io_read e (ticks s) AND 0x7F) OR 0x10) AND 0xFF),
               Write PRESCALE 121,
               Write MODE1 (io_read e (ticks s) AND 0xFF),
               Write MODE1 ((io_read e (ticks s) OR 0x80) AND 0xFF)]" for s
    by (simp add: u_set_pwm_frequency_def bus_defs Let_def)
  have logged: "Invalid_frequency freq
      \<in> set (errors (u_set_pwm_frequency e 50 (log_error (Invalid_frequency freq) s)))" for s
    by (simp add: u_set_pwm_frequency_def bus_defs Let_def)
  have "freq \<noteq> 50" using assms(3) by auto
  then show ?thesis
    unfolding st'_def oldmode_def run
    using freq50 trace [of "log_error (Invalid_frequency freq) st"] logged
    by (simp add: log_error_def)
qed

theorem set_pwm_frequency_out_of_range_witness:
  "pwm_frequency (fst (set_pwm_frequency quiet 5000 started)) = 50
   \<and> snd (set_pwm_frequency quiet 5000 started) = 50
   \<and> bus (fst (set_pwm_frequency quiet 5000 started)) =
        bus started @ [Read 0, Write 0 16, Write 254 121, Write 0 0, Write 0 128]
   \<and> Invalid_frequency 5000 \<in> set (errors (fst (set_pwm_frequency quiet 5000 started)))"
proof -
  have "(5000::int) < 12 \<or> 1024 < (5000::int)" by simp
  from set_pwm_frequency_out_of_range [OF this, of quiet started]
  show ?thesis by (simp add: quiet_def)
qed

subsection \<open>Stopping\<close>

text \<open>
  C8. Whatever the state and the bus, \<^verbatim>\<open>stop_servos\<close> ends with the active board it
  started with.
\<close>

theorem stop_servos_restores_active_board:
  "active_board (stop_servos e st) = active_board st"
  by (simp add: stop_servos_def Let_def)

text \<open>
  The loop does select the other boards on the way: with boards 1 and 2 seen and board 1
  active, the run zeroes board 1, selects the address 0x41 of board 2 and zeroes it.
  At the end the active board is 1 again, while the slave selected last on the bus is
  the one of board 2.
\<close>

lemma two_boards_fields:
  "active_board two_boards = 1"
  "pwm_boards two_boards = (\<lambda>j. - 1)(0 := 1, 1 := 1)"
  "ticks two_boards = 34"
  "errors two_boards = []"
  by (simp_all add: two_boards_def set_pwm_active_board_def started_eq u_set_active_board_def
      u_set_pwm_frequency_def bus_defs u_set_pwm_interval_all_def Let_def quiet_def)

lemma stop_servos_two_boards:
  "bus (stop_servos quiet two_boards) =
     bus two_boards @
       [Write ALL_CHANNELS_ON_L 0, Write ALL_CHANNELS_ON_H 0,
        Write ALL_CHANNELS_OFF_L 0, Write ALL_CHANNELS_OFF_H 0,
        Select 0x41,
        Write ALL_CHANNELS_ON_L 0, Write ALL_CHANNELS_ON_H 0,
        Write ALL_CHANNELS_OFF_L 0, Write ALL_CHANNELS_OFF_H 0]
   \<and> active_board (stop_servos quiet two_boards) = 1"
  by (simp add: stop_servos_def stop_servos_body_def two_boards_fields u_set_active_board_def
      bus_defs u_set_pwm_interval_all_def Let_def quiet_def upto_rec1)

subsection \<open>Drive mode\<close>

text \<open>
  C10. A request with one of the three mode names and a scale that is not positive is
  answered with the error \<open>-1\<close> and the message about the scale, and yet the stored mode
  is the requested one; the stored scale and the servo configurations are the old ones.
\<close>

theorem config_drive_mode_not_atomic:
  fixes req :: DriveMode and st :: controller
  defines "st' \<equiv> fst (config_drive_mode req st)"
  assumes recognised: "req_mode req = ''ackerman'' \<or> req_mode req = ''differential''
                       \<or> req_mode req = ''mecanum''"
    and scale: "req_scale req \<le> 0"
  shows "snd (config_drive_mode req st) = - 1
         \<and> errors st' = errors st @ [Invalid_scale (req_scale req)]
         \<and> mode (active_drive st') =
             (if req_mode req = ''ackerman'' then MODE_ACKERMAN
              else if req_mode req = ''differential'' then MODE_DIFFERENTIAL
              else MODE_MECANUM)
         \<and> scale (active_drive st') = scale (active_drive st)
         \<and> servo_configs st' = servo_configs st"
  using recognised scale unfolding st'_def
  by (auto simp add: config_drive_mode_def log_error_def Let_def)

theorem config_drive_mode_not_atomic_witness:
  "snd (config_drive_mode \<lparr>req_mode = ''differential'', req_scale = 0, req_servos = []\<rparr> started) = - 1
   \<and> mode (active_drive started) = MODE_UNDEFINED
   \<and> mode (active_drive (fst (config_drive_mode
        \<lparr>req_mode = ''differential'', req_scale = 0, req_servos = []\<rparr> started))) = MODE_DIFFERENTIAL
   \<and> scale (active_drive (fst (config_drive_mode
        \<lparr>req_mode = ''differential'', req_scale = 0, req_servos = []\<rparr> started))) = 1"
  using config_drive_mode_not_atomic
          [of "\<lparr>req_mode = ''differential'', req_scale = 0, req_servos = []\<rparr>" started]
  by (simp add: started_eq)

text \<open>The positions 0..3 are stored; every other position leaves the configurations as
  they are.\<close>

lemma config_drive_mode_body_accepts:
  "1 \<le> active_board st \<Longrightarrow> active_board st \<le> 62 \<Longrightarrow> 1 \<le> servo \<Longrightarrow> servo \<le> 16 \<Longrightarrow>
   0 \<le> p \<Longrightarrow> p \<le> 3 \<Longrightarrow>
   config_drive_mode_body \<lparr>msg_servo = servo, msg_value = p\<rparr> (st, err) = (st', err') \<Longrightarrow>
   mode_pos (servo_configs st' (active_board st - 1) (servo - 1)) = p
   \<and> errors st' = errors st \<and> err' = err"
  by (auto simp add: config_drive_mode_body_def Let_def)

lemma config_drive_mode_body_rejects:
  "p < 0 \<or> 3 < p \<Longrightarrow>
   config_drive_mode_body \<lparr>msg_servo = servo, msg_value = p\<rparr> (st, err) = (st', err') \<Longrightarrow>
   servo_configs st' = servo_configs st"
  by (auto simp add: config_drive_mode_body_def Let_def log_error_def split: if_splits)

text \<open>
  C6. The claim asks that the five positions 0..4 are accepted. The test of the source
  is \<^verbatim>\<open>position > POSITION_LEFTREAR\<close>, so position 4, the right rear wheel, is refused:
  the request below, on the calibrated servo 1, leaves its position at 0 and logs the
  invalid-position error.
\<close>

theorem config_drive_mode_rejects_right_rear:
  "mode_pos (servo_configs (fst (config_drive_mode
       \<lparr>req_mode = ''mecanum'', req_scale = 1,
        req_servos = [\<lparr>msg_servo = 1, msg_value = POSITION_RIGHTREAR\<rparr>]\<rparr> calibrated)) 0 0)
     = POSITION_UNDEFINED
   \<and> errors (fst (config_drive_mode
       \<lparr>req_mode = ''mecanum'', req_scale = 1,
        req_servos = [\<lparr>msg_servo = 1, msg_value = POSITION_RIGHTREAR\<rparr>]\<rparr> calibrated))
     = [Invalid_position POSITION_RIGHTREAR]"
  by (simp add: config_drive_mode_def config_drive_mode_body_def Let_def log_error_def
      calibrated_fields)

subsection \<open>Calibration\<close>

text \<open>An entry whose center is outside 0..4096, or whose center and half range leave
  0..4096, changes no configuration; so the entry with center 4000 and range 200.\<close>

lemma config_servos_body_rejects:
  "1 \<le> cfg_servo r \<Longrightarrow> cfg_servo r \<le> 16 \<Longrightarrow>
   cfg_center r < 0 \<or> 4096 < cfg_center r
     \<or> cfg_center r - cfg_range r sdiv 2 < 0 \<or> 4096 < cfg_center r + cfg_range r sdiv 2 \<Longrightarrow>
   servo_configs (fst (config_servos_body r (st, err))) = servo_configs st"
  by (auto simp add: config_servos_body_def log_error_def)

lemma config_servos_rejects_4000_200:
  "config_servos [\<lparr>cfg_servo = 1, cfg_center = 4000, cfg_range = 200, cfg_direction = 1\<rparr>] started
   = (log_error (Invalid_range_center 4000 100) started, 0)"
  by (simp add: config_servos_def config_servos_body_def started_eq signed_divide_int_def
      log_error_def)

text \<open>
  C7. The claim asks that every entry with a range outside 0..4096 is rejected. The
  test under the message about the range tests the center again, so the range is only
  bounded through \<open>center - range/2\<close> and \<open>center + range/2\<close>: the entries with range -50
  (center 100) and with range 4097 (center 2048) are stored, without any error.
\<close>

theorem config_servos_accepts_bad_range:
  "config_servos [\<lparr>cfg_servo = 1, cfg_center = 100, cfg_range = - 50, cfg_direction = 1\<rparr>] started
   = (started\<lparr>servo_configs := (servo_configs started)
        (0 := (servo_configs started 0)
           (0 := \<lparr>center = 100, range_c = - 50, direction = 1,
                  mode_pos = POSITION_UNDEFINED\<rparr>))\<rparr>, 0)
   \<and> config_servos [\<lparr>cfg_servo = 1, cfg_center = 2048, cfg_range = 4097, cfg_direction = 1\<rparr>] started
   = (started\<lparr>servo_configs := (servo_configs started)
        (0 := (servo_configs started 0)
           (0 := \<lparr>center = 2048, range_c = 4097, direction = 1,
                  mode_pos = POSITION_UNDEFINED\<rparr>))\<rparr>, 0)"
  by (simp add: config_servos_def config_servos_body_def started_eq signed_divide_int_def)

end
